theory Spec2Isabelle
  imports Main
begin

section \<open>Python strings\<close>

text \<open>
  A Python \<open>str\<close> is modelled as a \<open>string\<close> whose characters are the code points
  0..255 (Latin-1). On that range \<open>str.lower\<close> and \<open>str.strip\<close> are as below: the upper
  case letters are A..Z and U+00C0..U+00DE without the multiplication sign U+00D7, each 32
  below its lower case letter; the white space characters are U+0009..U+000D,
  U+001C..U+0020, U+0085 and U+00A0.
\<close>

definition py_lower_char :: "char \<Rightarrow> char" where
  "py_lower_char c =
     (let n = (of_char c :: nat)
      in if n \<in> {65..90} \<union> ({192..222} - {215}) then char_of (n + 32) else c)"

definition py_lower :: "string \<Rightarrow> string" where
  "py_lower s = map py_lower_char s"

definition py_isspace :: "char \<Rightarrow> bool" where
  "py_isspace c = ((of_char c :: nat) \<in> {9..13} \<union> {28..32} \<union> {133, 160})"

definition py_strip :: "string \<Rightarrow> string" where
  "py_strip s = rev (dropWhile py_isspace (rev (dropWhile py_isspace s)))"

text \<open>\<open>sep.join(lines)\<close>.\<close>

fun py_join :: "string \<Rightarrow> string list \<Rightarrow> string" where
  "py_join sep [] = []"
| "py_join sep [x] = x"
| "py_join sep (x # y # ys) = x @ sep @ py_join sep (y # ys)"

text \<open>\<open>str(n)\<close> for a natural number and for an integer: decimal digits, a minus sign first
  when negative.\<close>

definition digit_char :: "nat \<Rightarrow> char" where
  "digit_char d = char_of (48 + d)"

fun str_nat :: "nat \<Rightarrow> string" where
  "str_nat n = (if n < 10 then [digit_char n] else str_nat (n div 10) @ [digit_char (n mod 10)])"

declare str_nat.simps [simp del]

definition str_int :: "int \<Rightarrow> string" where
  "str_int i = (if i < 0 then CHR ''-'' # str_nat (nat (- i)) else str_nat (nat i))"

text \<open>The format specifications \<open>{i:2}\<close> on an integer (right-aligned in a field of at
  least the width) and \<open>{v:15}\<close> on a string (left-aligned); the fill is a space.\<close>

definition rjust :: "nat \<Rightarrow> string \<Rightarrow> string" where
  "rjust w s = replicate (w - length s) CHR '' '' @ s"

definition ljust :: "nat \<Rightarrow> string \<Rightarrow> string" where
  "ljust w s = s @ replicate (w - length s) CHR '' ''"

section \<open>Slide schemas (schemas/slides.py)\<close>

datatype SlideType = TITLE | AGENDA | CONTENT | KEY_POINTS | SECTION_HEADER | CLOSING

fun slide_type_value :: "SlideType \<Rightarrow> string" where
  "slide_type_value TITLE = ''title''"
| "slide_type_value AGENDA = ''agenda''"
| "slide_type_value CONTENT = ''content''"
| "slide_type_value KEY_POINTS = ''key_points''"
| "slide_type_value SECTION_HEADER = ''section_header''"
| "slide_type_value CLOSING = ''closing''"

text \<open>
  The six slide classes. Every constructor takes \<open>speaker_notes\<close> first (the field of
  \<open>SlideBase\<close>), then the fields of its class in the order of the source:
  \<open>TitleSlide notes title subtitle author date\<close>, \<open>AgendaSlide notes title items\<close>,
  \<open>ContentSlide notes title body image_suggestion\<close>, \<open>KeyPointsSlide notes title points\<close>
  (each point a \<open>dict[str, str]\<close>, here an association list),
  \<open>SectionHeaderSlide notes title subtitle\<close>, \<open>ClosingSlide notes title message\<close>.
  The discriminator \<open>slide_type\<close> is fixed by the class.
\<close>

datatype Slide =
    TitleSlide string string string string string
  | AgendaSlide string string "string list"
  | ContentSlide string string string string
  | KeyPointsSlide string string "(string \<times> string) list list"
  | SectionHeaderSlide string string string
  | ClosingSlide string string string

fun slide_type :: "Slide \<Rightarrow> SlideType" where
  "slide_type (TitleSlide _ _ _ _ _) = TITLE"
| "slide_type (AgendaSlide _ _ _) = AGENDA"
| "slide_type (ContentSlide _ _ _ _) = CONTENT"
| "slide_type (KeyPointsSlide _ _ _) = KEY_POINTS"
| "slide_type (SectionHeaderSlide _ _ _) = SECTION_HEADER"
| "slide_type (ClosingSlide _ _ _) = CLOSING"

text \<open>\<open>getattr(slide, "title", slide.slide_type.value)\<close>: each of the six classes has a
  \<open>title\<close> field, so the default is never taken.\<close>

fun slide_title :: "Slide \<Rightarrow> string" where
  "slide_title (TitleSlide _ t _ _ _) = t"
| "slide_title (AgendaSlide _ t _) = t"
| "slide_title (ContentSlide _ t _ _) = t"
| "slide_title (KeyPointsSlide _ t _) = t"
| "slide_title (SectionHeaderSlide _ t _) = t"
| "slide_title (ClosingSlide _ t _) = t"

record PresentationPlan =
  title :: string
  description :: string
  target_audience :: string
  estimated_duration_minutes :: int
  slides :: "Slide list"

definition get_slide_count :: "PresentationPlan \<Rightarrow> nat" where
  "get_slide_count p = length (slides p)"

text \<open>One line of the loop over \<open>enumerate(self.slides, 1)\<close>.\<close>

definition slide_line :: "nat \<Rightarrow> Slide \<Rightarrow> string" where
  "slide_line i slide =
     rjust 2 (str_nat i) @ ''. ['' @ ljust 15 (slide_type_value (slide_type slide)) @ ''] ''
       @ slide_title slide"

fun slide_lines :: "nat \<Rightarrow> Slide list \<Rightarrow> string list" where
  "slide_lines i [] = []"
| "slide_lines i (slide # rest) = slide_line i slide # slide_lines (Suc i) rest"

definition summary_lines :: "PresentationPlan \<Rightarrow> string list" where
  "summary_lines p =
     [''Presentation: '' @ title p,
      ''Slides: '' @ str_nat (get_slide_count p),
      ''Duration: ~'' @ str_int (estimated_duration_minutes p) @ '' minutes'',
      '''',
      ''Slide Structure:'',
      replicate 40 CHR ''-'']
     @ slide_lines 1 (slides p)"

definition get_slide_summary :: "PresentationPlan \<Rightarrow> string" where
  "get_slide_summary p = py_join [CHR 0x0A] (summary_lines p)"

section \<open>Workflow state (graph/state.py)\<close>

datatype PlanStatus = PENDING | DRAFT | REVISION_REQUESTED | APPROVED | REJECTED

text \<open>\<open>DocumentAnalysis\<close>; its field \<open>target_audience\<close> is written
  \<open>analysis_target_audience\<close> here, apart from the field of the plan.\<close>

record DocumentAnalysis =
  main_topic :: string
  key_sections :: "string list"
  technical_highlights :: "string list"
  economic_highlights :: "string list"
  analysis_target_audience :: string
  suggested_tone :: string

datatype BaseMessage = AIMessage string | HumanMessage string | SystemMessage string

record AgentState =
  document :: string
  document_analysis :: "DocumentAnalysis option"
  presentation_plan :: "PresentationPlan option"
  status :: PlanStatus
  user_feedback :: string
  revision_count :: int
  max_revisions :: int
  messages :: "BaseMessage list"
  error :: "string option"

text \<open>\<open>AgentState(document=document)\<close>: every other field takes its default.\<close>

definition initial_state :: "string \<Rightarrow> AgentState" where
  "initial_state doc =
     \<lparr>document = doc, document_analysis = None, presentation_plan = None, status = PENDING,
      user_feedback = [], revision_count = 0, max_revisions = 5, messages = [],
      error = None\<rparr>"

text \<open>
  A node returns a \<open>dict\<close> with the keys it writes. The dict is a record of optional
  values, \<open>None\<close> for a key that is absent; no node of the source stores the value
  \<open>None\<close> under a key. \<open>u_messages\<close> is the list under \<open>"messages"\<close>, empty when absent.
\<close>

record Update =
  u_document_analysis :: "DocumentAnalysis option"
  u_presentation_plan :: "PresentationPlan option"
  u_status :: "PlanStatus option"
  u_user_feedback :: "string option"
  u_revision_count :: "int option"
  u_messages :: "BaseMessage list"
  u_error :: "string option"

definition no_update :: Update where
  "no_update =
     \<lparr>u_document_analysis = None, u_presentation_plan = None, u_status = None,
      u_user_feedback = None, u_revision_count = None, u_messages = [], u_error = None\<rparr>"

text \<open>
  The graph merges an update into the state: a key that is present overwrites its field,
  and \<open>messages\<close>, annotated with the \<open>add_messages\<close> reducer, has the new messages
  appended.
\<close>

definition overwrite :: "'a \<Rightarrow> 'a option \<Rightarrow> 'a" where
  "overwrite old new = (case new of None \<Rightarrow> old | Some v \<Rightarrow> v)"

definition apply_update :: "AgentState \<Rightarrow> Update \<Rightarrow> AgentState" where
  "apply_update s u =
     \<lparr>document = document s,
      document_analysis = overwrite (document_analysis s) (map_option Some (u_document_analysis u)),
      presentation_plan = overwrite (presentation_plan s) (map_option Some (u_presentation_plan u)),
      status = overwrite (status s) (u_status u),
      user_feedback = overwrite (user_feedback s) (u_user_feedback u),
      revision_count = overwrite (revision_count s) (u_revision_count u),
      max_revisions = max_revisions s,
      messages = messages s @ u_messages u,
      error = overwrite (error s) (map_option Some (u_error u))\<rparr>"

section \<open>Nodes (graph/nodes.py)\<close>

text \<open>
  The calls to the language model and to Google Slides are outside the program: each node
  takes the outcome of its call as an argument, \<open>Inr\<close> the value returned and \<open>Inl\<close> the
  text \<open>str(e)\<close> of the exception raised inside the \<open>try\<close> block. Fixed texts are those of
  the source; a character of theirs beyond U+00FF is written \<open><U+XXXX>\<close>.
\<close>

definition nl :: string where
  "nl = [CHR 0x0A]"

definition analyze_document :: "string + DocumentAnalysis \<Rightarrow> AgentState \<Rightarrow> Update" where
  "analyze_document r state =
     (case r of
        Inr analysis \<Rightarrow>
          no_update\<lparr>u_document_analysis := Some analysis,
                    u_messages := [AIMessage (''He analizado el documento. Tema principal: ''
                                              @ main_topic analysis)]\<rparr>
      | Inl e \<Rightarrow>
          no_update\<lparr>u_error := Some (''Failed to analyze document: '' @ e),
                    u_messages := [AIMessage (''Error analyzing document: '' @ e)]\<rparr>)"

definition generate_plan :: "string + PresentationPlan \<Rightarrow> AgentState \<Rightarrow> Update" where
  "generate_plan r state =
     (case r of
        Inr plan \<Rightarrow>
          no_update\<lparr>u_presentation_plan := Some plan,
                    u_status := Some DRAFT,
                    u_messages := [AIMessage (''He creado un plan de presentaci'' @ [CHR 0xF3]
                                              @ ''n con '' @ str_nat (get_slide_count plan)
                                              @ '' diapositivas.'' @ nl @ nl
                                              @ get_slide_summary plan)]\<rparr>
      | Inl e \<Rightarrow>
          no_update\<lparr>u_error := Some (''Failed to generate plan: '' @ e),
                    u_status := Some PENDING,
                    u_messages := [AIMessage (''Error generating plan: '' @ e)]\<rparr>)"

definition revise_plan :: "string + PresentationPlan \<Rightarrow> AgentState \<Rightarrow> Update" where
  "revise_plan r state =
     (case r of
        Inr revised_plan \<Rightarrow>
          no_update\<lparr>u_presentation_plan := Some revised_plan,
                    u_status := Some DRAFT,
                    u_revision_count := Some (revision_count state + 1),
                    u_user_feedback := Some [],
                    u_messages := [AIMessage (''He revisado el plan de presentaci'' @ [CHR 0xF3]
                                              @ ''n bas'' @ [CHR 0xE1]
                                              @ ''ndome en tus comentarios.'' @ nl @ nl
                                              @ get_slide_summary revised_plan)]\<rparr>
      | Inl e \<Rightarrow>
          no_update\<lparr>u_error := Some (''Failed to revise plan: '' @ e),
                    u_messages := [AIMessage (''Error revising plan: '' @ e)]\<rparr>)"

text \<open>
  \<open>present_for_review\<close> only formats: \<open>review_message\<close> stands for lines 190 to 216 of
  the source, the review template filled with the summary, the detailed view of the slides
  and \<open>max_revisions - revision_count\<close>.
\<close>

definition present_for_review ::
  "(PresentationPlan \<Rightarrow> int \<Rightarrow> string) \<Rightarrow> AgentState \<Rightarrow> Update" where
  "present_for_review review_message state =
     (case presentation_plan state of
        None \<Rightarrow>
          no_update\<lparr>u_messages := [AIMessage (''No hay un plan disponible para revisi''
                                              @ [CHR 0xF3] @ ''n.'')]\<rparr>
      | Some plan \<Rightarrow>
          no_update\<lparr>u_messages :=
            [AIMessage (review_message plan (max_revisions state - revision_count state))]\<rparr>)"

text \<open>Truth value of a \<open>str | None\<close>: \<open>None\<close> and the empty string are false.\<close>

definition truthy :: "string option \<Rightarrow> bool" where
  "truthy v = (case v of None \<Rightarrow> False | Some s \<Rightarrow> s \<noteq> [])"

definition py_or :: "string option \<Rightarrow> string option \<Rightarrow> string option" where
  "py_or a b = (if truthy a then a else b)"

text \<open>
  The environment of \<open>finalize_plan\<close>: the two variables read with \<open>os.getenv\<close>, and the
  outcome of the \<open>try\<close> block that builds the deck (\<open>Inr\<close> the value of \<open>result['url']\<close>).
  The block only runs when a credential path is configured. What the node prints is no
  part of the state.
\<close>

record Environment =
  GOOGLE_CREDENTIALS_PATH :: "string option"
  GOOGLE_SERVICE_ACCOUNT_PATH :: "string option"
  create_presentation :: "string + string"

definition finalize_plan :: "Environment \<Rightarrow> AgentState \<Rightarrow> Update" where
  "finalize_plan env state =
     (case presentation_plan state of
        None \<Rightarrow>
          no_update\<lparr>u_error := Some ''No plan to finalize'',
                    u_messages := [AIMessage ''Error: No plan available to finalize.'']\<rparr>
      | Some plan \<Rightarrow>
          (let google_credentials =
                 py_or (GOOGLE_CREDENTIALS_PATH env) (GOOGLE_SERVICE_ACCOUNT_PATH env);
               slides_message =
                 (if truthy google_credentials then
                    (case create_presentation env of
                       Inr url \<Rightarrow> nl @ nl @ ''<U+1F517> **Google Slides Created:**'' @ nl @ url
                     | Inl e \<Rightarrow>
                         nl @ nl @ ''<U+26A0><U+FE0F> Could not create Google Slides: '' @ e)
                  else nl @ nl
                    @ ''<U+1F4A1> Configure GOOGLE_CREDENTIALS_PATH to auto-generate Google Slides.'')
           in no_update\<lparr>u_status := Some APPROVED,
                         u_messages := [AIMessage (''<U+2705> Plan approved and finalized!''
                                                   @ nl @ nl @ get_slide_summary plan
                                                   @ slides_message)]\<rparr>))"

definition handle_rejection :: "AgentState \<Rightarrow> Update" where
  "handle_rejection state =
     no_update\<lparr>u_status := Some REJECTED,
               u_messages := [AIMessage (''El plan de presentaci'' @ [CHR 0xF3]
                 @ ''n ha sido rechazado. Puedes comenzar de nuevo con un nuevo documento ''
                 @ ''o proporcionar diferentes requisitos.'')]\<rparr>"

definition should_continue_review :: "AgentState \<Rightarrow> string" where
  "should_continue_review state =
     (let feedback = py_strip (py_lower (user_feedback state))
      in if feedback = ''aprobar'' then ''finalize''
         else if feedback = ''rechazar'' then ''reject''
         else if revision_count state \<ge> max_revisions state then ''max_revisions''
         else ''revise'')"

definition check_for_errors :: "AgentState \<Rightarrow> string" where
  "check_for_errors state = (if truthy (error state) then ''error'' else ''continue'')"

section \<open>Graph (graph/workflow.py) and drivers (agent.py)\<close>

datatype Node =
    Analyze_Document | Generate_Plan | Present_For_Review | Revise_Plan | Finalize_Plan
  | Handle_Rejection | END

text \<open>The dictionaries of the conditional edges, from the router's label to the node.\<close>

definition analyze_edges :: "string \<rightharpoonup> Node" where
  "analyze_edges = map_of [(''error'', END), (''continue'', Generate_Plan)]"

definition generate_edges :: "string \<rightharpoonup> Node" where
  "generate_edges = map_of [(''error'', END), (''continue'', Present_For_Review)]"

definition review_edges :: "string \<rightharpoonup> Node" where
  "review_edges =
     map_of [(''finalize'', Finalize_Plan), (''reject'', Handle_Rejection),
             (''revise'', Revise_Plan), (''max_revisions'', Finalize_Plan)]"

definition revise_edges :: "string \<rightharpoonup> Node" where
  "revise_edges = map_of [(''error'', END), (''continue'', Present_For_Review)]"

text \<open>The node that runs after \<open>present_for_review\<close>: the router's label looked up in the
  edge dictionary.\<close>

definition review_decision :: "AgentState \<Rightarrow> Node option" where
  "review_decision state = review_edges (should_continue_review state)"

text \<open>
  Both drivers of agent.py hand the feedback to the graph as the input
  \<open>{"user_feedback": feedback}\<close>, which is merged into the state like the update of a
  node.
\<close>

definition feedback_input :: "string \<Rightarrow> Update" where
  "feedback_input feedback = no_update\<lparr>u_user_feedback := Some feedback\<rparr>"

text \<open>
  One round of the loop of \<open>run_agent\<close>, up to its call of \<open>graph.ainvoke\<close>: the line
  read is stripped; an empty one is answered with the prompt to type again and nothing is
  passed to the graph (\<open>None\<close>); otherwise the input built from the stripped line is
  passed.
\<close>

definition run_agent_round :: "string \<Rightarrow> Update option" where
  "run_agent_round line =
     (let user_input = py_strip line
      in if user_input = [] then None else Some (feedback_input user_input))"

text \<open>
  One step of the graph from a node and a state to the next node and state, for any
  outcome of the external call, any environment and any feedback. The graph is compiled
  with \<open>interrupt_after=["present_for_review"]\<close>, and the runtime that schedules the
  nodes is outside the source; the relation allows each way the feedback may meet the
  router. In \<open>step_review\<close> the feedback is merged into the state that \<open>present_for_review\<close>
  left and the router answers on the result. In \<open>step_review_early\<close> the router answers
  on the state as \<open>present_for_review\<close> left it, and the feedback is merged afterwards. In
  \<open>step_restart\<close> a call with new feedback enters the graph again at its entry point, on
  the state the session has.
\<close>

inductive step :: "Node \<times> AgentState \<Rightarrow> Node \<times> AgentState \<Rightarrow> bool" where
  step_analyze:
    "s' = apply_update s (analyze_document r s) \<Longrightarrow>
     analyze_edges (check_for_errors s') = Some n \<Longrightarrow>
     step (Analyze_Document, s) (n, s')"
| step_generate:
    "s' = apply_update s (generate_plan r s) \<Longrightarrow>
     generate_edges (check_for_errors s') = Some n \<Longrightarrow>
     step (Generate_Plan, s) (n, s')"
| step_review:
    "s' = apply_update (apply_update s (present_for_review review_message s))
            (feedback_input feedback) \<Longrightarrow>
     review_decision s' = Some n \<Longrightarrow>
     step (Present_For_Review, s) (n, s')"
| step_review_early:
    "s1 = apply_update s (present_for_review review_message s) \<Longrightarrow>
     review_decision s1 = Some n \<Longrightarrow>
     s' = apply_update s1 (feedback_input feedback) \<Longrightarrow>
     step (Present_For_Review, s) (n, s')"
| step_revise:
    "s' = apply_update s (revise_plan r s) \<Longrightarrow>
     revise_edges (check_for_errors s') = Some n \<Longrightarrow>
     step (Revise_Plan, s) (n, s')"
| step_finalize:
    "s' = apply_update s (finalize_plan env s) \<Longrightarrow>
     step (Finalize_Plan, s) (END, s')"
| step_reject:
    "s' = apply_update s (handle_rejection s) \<Longrightarrow>
     step (Handle_Rejection, s) (END, s')"
| step_restart:
    "s' = apply_update s (feedback_input feedback) \<Longrightarrow>
     step (n, s) (Analyze_Document, s')"

text \<open>The states a session can reach from the entry point of the graph.\<close>

definition reachable :: "AgentState \<Rightarrow> Node \<times> AgentState \<Rightarrow> bool" where
  "reachable s0 c = step\<^sup>*\<^sup>* (Analyze_Document, s0) c"

text \<open>The revision budget as a property of a node and the state it is about to run on:
  the count is within the ceiling, and strictly below it where a revision is about to
  run.\<close>

definition within_budget :: "Node \<times> AgentState \<Rightarrow> bool" where
  "within_budget c =
     (revision_count (snd c) \<le> max_revisions (snd c)
      \<and> (fst c = Revise_Plan \<longrightarrow> revision_count (snd c) < max_revisions (snd c)))"

section \<open>Reading a summary back\<close>

text \<open>
  The source has no reader of summaries. The specification's round trip is stated against
  the reader below, which follows the layout that \<open>get_slide_summary\<close> writes: the text is
  split at line breaks (\<open>str.split("\n")\<close>), the count is the number after \<open>Slides: \<close> on
  the second line, and every line from the seventh on is a slide line: the index before
  the first full stop, the type tag in the 15 characters after \<open>. [\<close> with its fill
  removed, and the title after \<open>] \<close>.
\<close>

fun split_on :: "char \<Rightarrow> string \<Rightarrow> string list" where
  "split_on c [] = [[]]"
| "split_on c (x # xs) =
     (if x = c then [] # split_on c xs
      else (case split_on c xs of [] \<Rightarrow> [[x]] | l # ls \<Rightarrow> (x # l) # ls))"

definition strip_prefix :: "string \<Rightarrow> string \<Rightarrow> string option" where
  "strip_prefix p s = (if take (length p) s = p then Some (drop (length p) s) else None)"

definition is_digit :: "char \<Rightarrow> bool" where
  "is_digit c = ((of_char c :: nat) \<in> {48..57})"

fun parse_digits :: "nat \<Rightarrow> string \<Rightarrow> nat option" where
  "parse_digits acc [] = Some acc"
| "parse_digits acc (c # cs) =
     (if is_digit c then parse_digits (acc * 10 + (of_char c - 48)) cs else None)"

definition parse_nat :: "string \<Rightarrow> nat option" where
  "parse_nat s = (if s = [] then None else parse_digits 0 s)"

definition slide_type_of_value :: "string \<Rightarrow> SlideType option" where
  "slide_type_of_value =
     map_of (map (\<lambda>t. (slide_type_value t, t))
               [TITLE, AGENDA, CONTENT, KEY_POINTS, SECTION_HEADER, CLOSING])"

definition rstrip_spaces :: "string \<Rightarrow> string" where
  "rstrip_spaces s = rev (dropWhile (\<lambda>c. c = CHR '' '') (rev s))"

definition parse_slide_line :: "string \<Rightarrow> (nat \<times> SlideType \<times> string) option" where
  "parse_slide_line line =
     (let index_field = takeWhile (\<lambda>c. c \<noteq> CHR ''.'') line;
          rest = dropWhile (\<lambda>c. c \<noteq> CHR ''.'') line
      in case parse_nat (dropWhile (\<lambda>c. c = CHR '' '') index_field) of
           None \<Rightarrow> None
         | Some i \<Rightarrow>
             (case strip_prefix ''. ['' rest of
                None \<Rightarrow> None
              | Some r \<Rightarrow>
                  (case slide_type_of_value (rstrip_spaces (take 15 r)) of
                     None \<Rightarrow> None
                   | Some t \<Rightarrow>
                       (case strip_prefix ''] '' (drop 15 r) of
                          None \<Rightarrow> None
                        | Some ttl \<Rightarrow> Some (i, t, ttl)))))"

definition parse_summary :: "string \<Rightarrow> (nat \<times> (nat \<times> SlideType \<times> string) list) option" where
  "parse_summary text =
     (let ls = split_on (CHR 0x0A) text
      in if length ls < 6 then None
         else (case strip_prefix ''Slides: '' (ls ! 1) of
                 None \<Rightarrow> None
               | Some c \<Rightarrow>
                   (case parse_nat c of
                      None \<Rightarrow> None
                    | Some n \<Rightarrow>
                        (case those (map parse_slide_line (drop 6 ls)) of
                           None \<Rightarrow> None
                         | Some sl \<Rightarrow> Some (n, sl)))))"

section \<open>Example sessions\<close>

definition demo_plan :: PresentationPlan where
  "demo_plan =
     \<lparr>title = ''Cloud Migration'', description = [], target_audience = [],
      estimated_duration_minutes = 30,
      slides = [TitleSlide [] ''Cloud Migration'' [] [] [],
                AgendaSlide [] ''Agenda'' [''Scope'', ''Costs''],
                ClosingSlide [] ''Thank You'' []]\<rparr>"

definition demo_analysis :: DocumentAnalysis where
  "demo_analysis =
     \<lparr>main_topic = ''Cloud migration'', key_sections = [''Approach'', ''Costs''],
      technical_highlights = [], economic_highlights = [],
      analysis_target_audience = [], suggested_tone = ''professional''\<rparr>"

definition demo_review_message :: "PresentationPlan \<Rightarrow> int \<Rightarrow> string" where
  "demo_review_message plan remaining = get_slide_summary plan @ nl @ str_int remaining"

text \<open>A session whose plan is in review after \<open>n\<close> revisions.\<close>

definition demo_draft :: "int \<Rightarrow> AgentState" where
  "demo_draft n =
     (initial_state ''proposal'')\<lparr>presentation_plan := Some demo_plan, status := DRAFT,
                                  revision_count := n\<rparr>"

text \<open>A run of the graph: analysis, plan, review, feedback that asks for a change,
  revision.\<close>

definition demo_analyzed :: AgentState where
  "demo_analyzed =
     apply_update (initial_state ''proposal'')
       (analyze_document (Inr demo_analysis) (initial_state ''proposal''))"

definition demo_generated :: AgentState where
  "demo_generated = apply_update demo_analyzed (generate_plan (Inr demo_plan) demo_analyzed)"

definition demo_presented :: AgentState where
  "demo_presented =
     apply_update demo_generated (present_for_review demo_review_message demo_generated)"

definition demo_resumed :: AgentState where
  "demo_resumed = apply_update demo_presented (feedback_input ''add a cost slide'')"

definition demo_revised :: AgentState where
  "demo_revised = apply_update demo_resumed (revise_plan (Inr demo_plan) demo_resumed)"

text \<open>The state that a session whose plan generation failed is left in.\<close>

definition demo_failed :: AgentState where
  "demo_failed =
     apply_update (initial_state ''proposal'')
       (generate_plan (Inl ''timeout'') (initial_state ''proposal''))"

text \<open>An environment with a credential path whose deck cannot be built.\<close>

definition demo_env :: Environment where
  "demo_env =
     \<lparr>GOOGLE_CREDENTIALS_PATH = Some ''credentials.json'', GOOGLE_SERVICE_ACCOUNT_PATH = None,
      create_presentation = Inl ''quota exceeded''\<rparr>"

text \<open>Two plans with line breaks in their titles: the text that follows the second line
  of a summary, up to the title of the first slide, is \<open>summary_header_tail\<close>.\<close>

definition summary_header_tail :: string where
  "summary_header_tail =
     [CHR 0x0A] @ ''Duration: ~30 minutes'' @ [CHR 0x0A] @ [CHR 0x0A] @ ''Slide Structure:''
     @ [CHR 0x0A] @ replicate 40 CHR ''-'' @ [CHR 0x0A] @ '' 1. [closing        ] ''"

definition two_slide_plan :: PresentationPlan where
  "two_slide_plan =
     \<lparr>title = ''Q'' @ [CHR 0x0A] @ ''Slides: 1'' @ summary_header_tail @ ''x'',
      description = [], target_audience = [], estimated_duration_minutes = 30,
      slides = [ClosingSlide [] ''a'' [], ClosingSlide [] ''b'' []]\<rparr>"

definition one_slide_plan :: PresentationPlan where
  "one_slide_plan =
     \<lparr>title = ''Q'', description = [], target_audience = [], estimated_duration_minutes = 30,
      slides = [ClosingSlide []
                  (''x'' @ [CHR 0x0A] @ ''Slides: 2'' @ summary_header_tail @ ''a''
                   @ [CHR 0x0A] @ '' 2. [closing        ] b'') []]\<rparr>"

section \<open>Evaluation of the model\<close>

lemmas router_defs = review_decision_def should_continue_review_def review_edges_def

lemmas norm_defs = py_strip_def py_lower_def py_lower_char_def py_isspace_def char_of_def
  bit_Suc_0_iff

lemmas update_defs = apply_update_def overwrite_def no_update_def

lemmas node_defs = analyze_document_def generate_plan_def revise_plan_def
  present_for_review_def finalize_plan_def handle_rejection_def

lemmas input_defs = feedback_input_def demo_presented_def

lemma replicate_numeral: "replicate (numeral k) x = x # replicate (pred_numeral k) x"
  by (simp add: numeral_eq_Suc)

lemmas text_defs = str_nat.simps digit_char_def char_of_def bit_Suc_0_iff rjust_def ljust_def
  replicate_numeral

section \<open>The review decision\<close>

text \<open>
  C1, as amended. For every state the node after the review is decided in this order:
  feedback that is \<open>aprobar\<close> once lower-cased and stripped goes to \<open>finalize_plan\<close>;
  feedback that is \<open>rechazar\<close> goes to \<open>handle_rejection\<close>; otherwise, with
  \<open>revision_count >= max_revisions\<close>, to \<open>finalize_plan\<close>; otherwise to \<open>revise_plan\<close>.
  The keywords are the Spanish words of the review template, not \<open>approve\<close> and \<open>reject\<close>.
\<close>

theorem review_decision_priority:
  "review_decision s =
     (let feedback = py_strip (py_lower (user_feedback s))
      in if feedback = ''aprobar'' then Some Finalize_Plan
         else if feedback = ''rechazar'' then Some Handle_Rejection
         else if revision_count s \<ge> max_revisions s then Some Finalize_Plan
         else Some Revise_Plan)"
  by (simp add: router_defs Let_def)

text \<open>With the budget used up, \<open>Rechazar\<close> between blanks still rejects.\<close>

theorem review_decision_priority_witness:
  "review_decision ((demo_draft 5)\<lparr>user_feedback := ''  Rechazar ''\<rparr>) = Some Handle_Rejection"
  using review_decision_priority [of "(demo_draft 5)\<lparr>user_feedback := ''  Rechazar ''\<rparr>"]
  by (simp add: input_defs update_defs demo_draft_def initial_state_def norm_defs)

text \<open>C1 as stated fails: the feedback \<open>approve\<close>, with revisions left, is sent to
  \<open>revise_plan\<close> as a request for a change.\<close>

theorem approve_literal_counterexample:
  "review_decision ((demo_draft 0)\<lparr>user_feedback := ''approve''\<rparr>) = Some Revise_Plan"
  by (simp add: input_defs update_defs demo_draft_def initial_state_def norm_defs
      router_defs)

text \<open>
  C7. In a DRAFT state with \<open>revision_count = max_revisions\<close>, feedback that is neither
  the approval keyword nor the rejection keyword gets the label \<open>max_revisions\<close>, whose
  edge leads to \<open>finalize_plan\<close>.
\<close>

theorem budget_exhausted_finalizes:
  assumes "status s = DRAFT"
    and "revision_count s = max_revisions s"
    and "py_strip (py_lower (user_feedback s)) \<noteq> ''aprobar''"
    and "py_strip (py_lower (user_feedback s)) \<noteq> ''rechazar''"
  shows "should_continue_review s = ''max_revisions'' \<and> review_decision s = Some Finalize_Plan"
  using assms by (simp add: router_defs)

text \<open>Five revisions out of five, and the feedback \<open>change slide 3\<close>.\<close>

theorem budget_exhausted_finalizes_witness:
  "should_continue_review ((demo_draft 5)\<lparr>user_feedback := ''change slide 3''\<rparr>) = ''max_revisions''
   \<and> review_decision ((demo_draft 5)\<lparr>user_feedback := ''change slide 3''\<rparr>) = Some Finalize_Plan"
  by (rule budget_exhausted_finalizes)
     (simp_all add: input_defs update_defs demo_draft_def initial_state_def norm_defs)

subsection \<open>Blank feedback\<close>

lemma py_lower_char_space: "py_isspace (py_lower_char c) = py_isspace c"
proof -
  have "(of_char c :: nat) < 256" by simp
  then show ?thesis
    by (auto simp: py_isspace_def py_lower_char_def Let_def)
qed

lemma py_strip_Nil_iff: "py_strip w = [] \<longleftrightarrow> (\<forall>c \<in> set w. py_isspace c)"
proof
  assume "py_strip w = []"
  then have "\<forall>c \<in> set (dropWhile py_isspace w). py_isspace c"
    by (simp add: py_strip_def dropWhile_eq_Nil_conv)
  then have "dropWhile py_isspace w = []"
    using hd_dropWhile [of py_isspace w] by (cases "dropWhile py_isspace w") auto
  then show "\<forall>c \<in> set w. py_isspace c"
    by (simp add: dropWhile_eq_Nil_conv)
next
  assume "\<forall>c \<in> set w. py_isspace c"
  then show "py_strip w = []"
    by (auto simp: py_strip_def dropWhile_eq_Nil_conv dest: set_dropWhileD)
qed

lemma py_strip_last: "py_strip w \<noteq> [] \<Longrightarrow> \<not> py_isspace (last (py_strip w))"
  unfolding py_strip_def by (simp add: last_rev hd_dropWhile)

lemma blank_normalized: "py_strip (py_lower f) = [] \<longleftrightarrow> (\<forall>c \<in> set f. py_isspace c)"
  by (simp add: py_strip_Nil_iff py_lower_def py_lower_char_space)

text \<open>The router has no case for blank feedback: with revisions left, a state whose
  feedback is white space alone, or empty, is routed to \<open>revise_plan\<close>.\<close>

lemma blank_feedback_revise:
  assumes "\<forall>c \<in> set (user_feedback s). py_isspace c"
    and "revision_count s < max_revisions s"
  shows "should_continue_review s = ''revise'' \<and> review_decision s = Some Revise_Plan"
proof -
  have "py_strip (py_lower (user_feedback s)) = []"
    using assms(1) by (simp add: blank_normalized)
  with assms(2) show ?thesis
    by (simp add: router_defs)
qed

text \<open>The interactive loop does have the guard: a blank line is never passed to the
  graph, and the feedback that is passed is not blank.\<close>

lemma run_agent_round_blank:
  "\<forall>c \<in> set line. py_isspace c \<Longrightarrow> run_agent_round line = None"
  by (simp add: run_agent_round_def py_strip_Nil_iff)

lemma run_agent_round_not_blank:
  assumes "run_agent_round line = Some u"
  shows "\<exists>f. u = feedback_input f \<and> py_strip (py_lower f) \<noteq> []"
proof -
  from assms have ne: "py_strip line \<noteq> []" and u: "u = feedback_input (py_strip line)"
    by (auto simp: run_agent_round_def Let_def split: if_splits)
  from ne have "\<exists>c \<in> set (py_strip line). \<not> py_isspace c"
    using py_strip_last [of line] last_in_set [of "py_strip line"] by blast
  then have "py_strip (py_lower (py_strip line)) \<noteq> []"
    by (simp add: blank_normalized)
  with u show ?thesis by blast
qed

section \<open>The nodes\<close>

text \<open>
  C3. When the model returns a revised plan, the update of \<open>revise_plan\<close> stores that
  plan, the status DRAFT, the old \<open>revision_count\<close> plus one and the empty feedback, and
  holds one message, the summary of the revised plan; merged into the state, it appends
  that one message.
\<close>

theorem revise_success_update:
  "(let u = revise_plan (Inr revised) s; s' = apply_update s u
    in u_presentation_plan u = Some revised \<and> u_status u = Some DRAFT
       \<and> u_revision_count u = Some (revision_count s + 1) \<and> u_user_feedback u = Some []
       \<and> u_messages u =
           [AIMessage (''He revisado el plan de presentaci'' @ [CHR 0xF3] @ ''n bas''
                       @ [CHR 0xE1] @ ''ndome en tus comentarios.'' @ nl @ nl
                       @ get_slide_summary revised)]
       \<and> u_error u = None \<and> u_document_analysis u = None
       \<and> presentation_plan s' = Some revised \<and> status s' = DRAFT
       \<and> revision_count s' = revision_count s + 1 \<and> user_feedback s' = []
       \<and> messages s' = messages s @ u_messages u)"
  by (simp add: revise_plan_def update_defs Let_def)

theorem revise_success_update_witness:
  "revision_count demo_resumed = 0 \<and> user_feedback demo_resumed = ''add a cost slide''
   \<and> revision_count demo_revised = 1 \<and> user_feedback demo_revised = []
   \<and> status demo_revised = DRAFT \<and> presentation_plan demo_revised = Some demo_plan
   \<and> length (messages demo_revised) = length (messages demo_resumed) + 1"
  using revise_success_update [of demo_plan demo_resumed]
  by (simp add: Let_def demo_revised_def demo_resumed_def demo_generated_def
      demo_analyzed_def initial_state_def node_defs input_defs update_defs)

text \<open>
  C4. When the call of \<open>revise_plan\<close> raises, the update holds the error and one error
  message and nothing else: the feedback, the plan, the status and \<open>revision_count\<close> of
  the state stay as they were.
\<close>

theorem revise_failure_frame:
  "(let u = revise_plan (Inl e) s; s' = apply_update s u
    in error s' = Some (''Failed to revise plan: '' @ e)
       \<and> messages s' = messages s @ [AIMessage (''Error revising plan: '' @ e)]
       \<and> user_feedback s' = user_feedback s
       \<and> presentation_plan s' = presentation_plan s
       \<and> status s' = status s
       \<and> revision_count s' = revision_count s
       \<and> u_user_feedback u = None \<and> u_presentation_plan u = None
       \<and> u_status u = None \<and> u_revision_count u = None)"
  by (simp add: revise_plan_def update_defs Let_def)

theorem revise_failure_frame_witness:
  "error (apply_update demo_resumed (revise_plan (Inl ''timeout'') demo_resumed))
     = Some ''Failed to revise plan: timeout''
   \<and> user_feedback (apply_update demo_resumed (revise_plan (Inl ''timeout'') demo_resumed))
       = ''add a cost slide''
   \<and> revision_count (apply_update demo_resumed (revise_plan (Inl ''timeout'') demo_resumed))
       = 0
   \<and> status (apply_update demo_resumed (revise_plan (Inl ''timeout'') demo_resumed)) = DRAFT"
  using revise_failure_frame [of "''timeout''" demo_resumed]
  by (simp add: Let_def demo_resumed_def demo_generated_def demo_analyzed_def
      initial_state_def node_defs input_defs update_defs)

text \<open>
  C6, as amended. No node writes \<open>error\<close> when it succeeds: after a successful
  \<open>analyze_document\<close>, \<open>generate_plan\<close>, \<open>revise_plan\<close>, \<open>present_for_review\<close>,
  \<open>finalize_plan\<close> (on a state with a plan) or \<open>handle_rejection\<close>, the field is what it
  was before, so an error that was set stays set.
\<close>

theorem success_keeps_error:
  "error (apply_update s (analyze_document (Inr analysis) s)) = error s
   \<and> error (apply_update s (generate_plan (Inr plan) s)) = error s
   \<and> error (apply_update s (revise_plan (Inr plan) s)) = error s
   \<and> error (apply_update s (present_for_review review_message s)) = error s
   \<and> error (apply_update (s\<lparr>presentation_plan := Some plan\<rparr>)
              (finalize_plan env (s\<lparr>presentation_plan := Some plan\<rparr>))) = error s
   \<and> error (apply_update s (handle_rejection s)) = error s"
  by (simp add: node_defs update_defs Let_def split: option.split sum.split)

theorem success_keeps_error_witness:
  "error (apply_update demo_failed (analyze_document (Inr demo_analysis) demo_failed))
     = Some ''Failed to generate plan: timeout''
   \<and> error (apply_update demo_failed (handle_rejection demo_failed))
     = Some ''Failed to generate plan: timeout''"
  using success_keeps_error [of demo_failed demo_analysis demo_plan demo_review_message demo_env]
  by (simp add: demo_failed_def generate_plan_def update_defs initial_state_def)

text \<open>C6 as stated fails: a run is started on a state whose \<open>error\<close> is set, the state a
  failed session was left in; \<open>analyze_document\<close> succeeds on it, the old error is still
  there, \<open>check_for_errors\<close> answers \<open>error\<close> and the run ends.\<close>

theorem stale_error_counterexample:
  "error demo_failed = Some ''Failed to generate plan: timeout''
   \<and> error (apply_update demo_failed (analyze_document (Inr demo_analysis) demo_failed))
       = Some ''Failed to generate plan: timeout''
   \<and> check_for_errors (apply_update demo_failed (analyze_document (Inr demo_analysis) demo_failed))
       = ''error''
   \<and> step (Analyze_Document, demo_failed)
        (END, apply_update demo_failed (analyze_document (Inr demo_analysis) demo_failed))"
proof -
  have err: "error (apply_update demo_failed (analyze_document (Inr demo_analysis) demo_failed))
               = Some ''Failed to generate plan: timeout''"
    by (simp add: demo_failed_def generate_plan_def analyze_document_def update_defs
        initial_state_def)
  have chk: "check_for_errors
               (apply_update demo_failed (analyze_document (Inr demo_analysis) demo_failed))
             = ''error''"
    by (simp add: err check_for_errors_def truthy_def)
  have "step (Analyze_Document, demo_failed)
          (END, apply_update demo_failed (analyze_document (Inr demo_analysis) demo_failed))"
    by (rule step_analyze [where r = "Inr demo_analysis"])
       (simp_all add: chk analyze_edges_def)
  moreover have "error demo_failed = Some ''Failed to generate plan: timeout''"
    by (simp add: demo_failed_def generate_plan_def update_defs initial_state_def)
  ultimately show ?thesis using err chk by simp
qed

text \<open>
  C8. On a state with a plan, \<open>finalize_plan\<close> stores the status APPROVED and one message,
  and does not write \<open>error\<close>, whatever the environment: the field keeps the value it had.
  The message is the summary of the plan followed by the link of the deck, or, when
  building the deck raised, by the advice that it could not be created, or, when no
  credential path is configured, by the hint to configure one.
\<close>

theorem finalize_render_failure_advisory:
  assumes "presentation_plan s = Some plan"
  shows
    "(let u = finalize_plan env s; s' = apply_update s u;
          configured =
            truthy (py_or (GOOGLE_CREDENTIALS_PATH env) (GOOGLE_SERVICE_ACCOUNT_PATH env))
      in status s' = APPROVED \<and> u_status u = Some APPROVED
         \<and> u_error u = None \<and> error s' = error s
         \<and> messages s' = messages s @ u_messages u
         \<and> u_messages u =
             [AIMessage (''<U+2705> Plan approved and finalized!'' @ nl @ nl
                @ get_slide_summary plan
                @ (if configured then
                     (case create_presentation env of
                        Inr url \<Rightarrow> nl @ nl @ ''<U+1F517> **Google Slides Created:**'' @ nl @ url
                      | Inl e \<Rightarrow>
                          nl @ nl @ ''<U+26A0><U+FE0F> Could not create Google Slides: '' @ e)
                   else nl @ nl
                     @ ''<U+1F4A1> Configure GOOGLE_CREDENTIALS_PATH to auto-generate Google Slides.''))])"
  using assms by (simp add: finalize_plan_def update_defs Let_def)

text \<open>A deck that cannot be built, and then no credential path at all.\<close>

theorem finalize_render_failure_advisory_witness:
  "status (apply_update (demo_draft 2) (finalize_plan demo_env (demo_draft 2))) = APPROVED
   \<and> error (apply_update (demo_draft 2) (finalize_plan demo_env (demo_draft 2))) = None
   \<and> u_messages (finalize_plan demo_env (demo_draft 2)) =
       [AIMessage (''<U+2705> Plan approved and finalized!'' @ nl @ nl
          @ get_slide_summary demo_plan @ nl @ nl
          @ ''<U+26A0><U+FE0F> Could not create Google Slides: quota exceeded'')]
   \<and> status (apply_update (demo_draft 2)
         (finalize_plan (demo_env\<lparr>GOOGLE_CREDENTIALS_PATH := None\<rparr>) (demo_draft 2))) = APPROVED
   \<and> u_messages (finalize_plan (demo_env\<lparr>GOOGLE_CREDENTIALS_PATH := None\<rparr>) (demo_draft 2)) =
       [AIMessage (''<U+2705> Plan approved and finalized!'' @ nl @ nl
          @ get_slide_summary demo_plan @ nl @ nl
          @ ''<U+1F4A1> Configure GOOGLE_CREDENTIALS_PATH to auto-generate Google Slides.'')]"
proof -
  have plan: "presentation_plan (demo_draft 2) = Some demo_plan"
    by (simp add: demo_draft_def)
  have err: "error (demo_draft 2) = None"
    by (simp add: demo_draft_def initial_state_def)
  show ?thesis
    using finalize_render_failure_advisory [OF plan, of demo_env]
      finalize_render_failure_advisory [OF plan, of "demo_env\<lparr>GOOGLE_CREDENTIALS_PATH := None\<rparr>"]
    by (simp add: Let_def err demo_env_def truthy_def py_or_def)
qed

section \<open>Invariants of the graph\<close>

lemma review_decision_revise:
  "review_decision s = Some Revise_Plan \<Longrightarrow> revision_count s < max_revisions s"
  by (simp add: router_defs Let_def split: if_splits)

lemma edges_not_revise:
  "analyze_edges l = Some n \<Longrightarrow> n \<noteq> Revise_Plan"
  "generate_edges l = Some n \<Longrightarrow> n \<noteq> Revise_Plan"
  "revise_edges l = Some n \<Longrightarrow> n \<noteq> Revise_Plan"
  by (auto simp: analyze_edges_def generate_edges_def revise_edges_def split: if_splits)

lemma counters_kept:
  "max_revisions (apply_update s u) = max_revisions s"
  "revision_count (apply_update s (feedback_input f)) = revision_count s"
  "revision_count (apply_update s (analyze_document r s)) = revision_count s"
  "revision_count (apply_update s (generate_plan r' s)) = revision_count s"
  "revision_count (apply_update s (present_for_review m s)) = revision_count s"
  "revision_count (apply_update s (finalize_plan env s)) = revision_count s"
  "revision_count (apply_update s (handle_rejection s)) = revision_count s"
  by (simp_all add: node_defs update_defs input_defs Let_def split: sum.split option.split)

lemma revise_count_le:
  "revision_count (apply_update s (revise_plan r s)) \<le> revision_count s + 1"
  by (simp add: node_defs update_defs split: sum.split)

text \<open>Every step of the graph keeps the revision budget.\<close>

lemma step_within_budget:
  assumes "step c c'" and "within_budget c"
  shows "within_budget c'"
  using assms
proof (induction rule: step.induct)
  case (step_analyze s' s r n)
  then show ?case
    by (auto simp: within_budget_def counters_kept dest: edges_not_revise)
next
  case (step_generate s' s r n)
  then show ?case
    by (auto simp: within_budget_def counters_kept dest: edges_not_revise)
next
  case (step_review s' s review_message feedback n)
  then show ?case
    using review_decision_revise [of s']
    by (auto simp: within_budget_def counters_kept)
next
  case (step_revise s' s r n)
  then show ?case
    using revise_count_le [of s r]
    by (auto simp: within_budget_def counters_kept dest: edges_not_revise)
next
  case (step_review_early s1 s review_message n s' feedback)
  then show ?case
    using review_decision_revise [of s1]
    by (auto simp: within_budget_def counters_kept)
next
  case (step_finalize s' s env)
  then show ?case by (simp add: within_budget_def counters_kept)
next
  case (step_reject s' s)
  then show ?case by (simp add: within_budget_def counters_kept)
next
  case (step_restart s' s feedback n)
  then show ?case by (simp add: within_budget_def counters_kept)
qed

lemma reachable_within_budget:
  assumes "reachable s0 c" and "within_budget (Analyze_Document, s0)"
  shows "within_budget c"
  using assms unfolding reachable_def
  by (induction rule: rtranclp_induct) (auto intro: step_within_budget)

text \<open>The example run is a run of the graph.\<close>

lemma demo_reachable_generated:
  "reachable (initial_state ''proposal'') (Present_For_Review, demo_generated)"
proof -
  have "step (Analyze_Document, initial_state ''proposal'') (Generate_Plan, demo_analyzed)"
    by (rule step_analyze [where r = "Inr demo_analysis"])
       (simp_all add: demo_analyzed_def initial_state_def analyze_document_def update_defs
          check_for_errors_def truthy_def analyze_edges_def)
  moreover have "step (Generate_Plan, demo_analyzed) (Present_For_Review, demo_generated)"
    by (rule step_generate [where r = "Inr demo_plan"])
       (simp_all add: demo_generated_def demo_analyzed_def initial_state_def
          analyze_document_def generate_plan_def update_defs check_for_errors_def truthy_def
          generate_edges_def)
  ultimately show ?thesis
    unfolding reachable_def by (meson rtranclp.rtrancl_into_rtrancl rtranclp.rtrancl_refl)
qed

lemma demo_reachable_resumed: "reachable (initial_state ''proposal'') (Revise_Plan, demo_resumed)"
proof -
  have "step (Present_For_Review, demo_generated) (Revise_Plan, demo_resumed)"
    by (rule step_review [where review_message = demo_review_message
          and feedback = "''add a cost slide''"])
       (simp_all add: demo_resumed_def demo_generated_def demo_analyzed_def initial_state_def
          node_defs input_defs update_defs router_defs norm_defs)
  with demo_reachable_generated show ?thesis
    unfolding reachable_def by (rule rtranclp.rtrancl_into_rtrancl)
qed

text \<open>Without any feedback given, the router answers on the empty feedback that the state
  has from the start.\<close>

lemma demo_reachable_presented:
  "reachable (initial_state ''proposal'') (Revise_Plan, demo_presented)"
proof -
  have "step (Present_For_Review, demo_generated) (Revise_Plan, demo_presented)"
    by (rule step_review_early [where review_message = demo_review_message
          and feedback = "[]" and ?s1.0 = demo_presented])
       (simp_all add: demo_presented_def demo_generated_def demo_analyzed_def
          initial_state_def node_defs feedback_input_def update_defs router_defs norm_defs)
  with demo_reachable_generated show ?thesis
    unfolding reachable_def by (rule rtranclp.rtrancl_into_rtrancl)
qed

lemma demo_reachable_revised:
  "reachable (initial_state ''proposal'') (Present_For_Review, demo_revised)"
proof -
  have "step (Revise_Plan, demo_resumed) (Present_For_Review, demo_revised)"
    by (rule step_revise [where r = "Inr demo_plan"])
       (simp_all add: demo_revised_def demo_resumed_def demo_generated_def demo_analyzed_def
          initial_state_def node_defs input_defs update_defs check_for_errors_def truthy_def
          revise_edges_def)
  with demo_reachable_resumed show ?thesis
    unfolding reachable_def by (rule rtranclp.rtrancl_into_rtrancl)
qed

text \<open>
  C5 fails at the router. A run started on \<open>AgentState(document=...)\<close>, whose feedback
  is empty by default, reaches the review with a plan and no revision made; on that state
  \<open>should_continue_review\<close> answers \<open>revise\<close>, and the edge leads to \<open>revise_plan\<close>. The
  same holds when the feedback of that state is three spaces.
\<close>

theorem blank_feedback_routed_to_revise:
  "reachable (initial_state ''proposal'') (Revise_Plan, demo_presented)
   \<and> user_feedback demo_presented = []
   \<and> revision_count demo_presented = 0 \<and> max_revisions demo_presented = 5
   \<and> should_continue_review demo_presented = ''revise''
   \<and> review_decision demo_presented = Some Revise_Plan
   \<and> should_continue_review (demo_presented\<lparr>user_feedback := ''   ''\<rparr>) = ''revise''
   \<and> review_decision (demo_presented\<lparr>user_feedback := ''   ''\<rparr>) = Some Revise_Plan"
  using demo_reachable_presented
  by (simp add: demo_presented_def demo_generated_def demo_analyzed_def initial_state_def
      node_defs update_defs norm_defs router_defs)

text \<open>
  C2, as amended. From an initial state with \<open>revision_count = 0\<close> and a ceiling
  \<open>max_revisions\<close> that is not negative, every state the graph reaches has
  \<open>revision_count <= max_revisions\<close>, and \<open>revise_plan\<close> is only about to run on a state
  with \<open>revision_count < max_revisions\<close>.
\<close>

theorem revision_budget_invariant:
  assumes "revision_count s0 = 0" and "0 \<le> max_revisions s0"
    and "reachable s0 (n, s)"
  shows "revision_count s \<le> max_revisions s
         \<and> (n = Revise_Plan \<longrightarrow> revision_count s < max_revisions s)"
  using reachable_within_budget [OF assms(3)] assms(1,2)
  by (simp add: within_budget_def)

theorem revision_budget_invariant_witness:
  "reachable (initial_state ''proposal'') (Revise_Plan, demo_resumed)
   \<and> revision_count demo_resumed < max_revisions demo_resumed
   \<and> revision_count demo_resumed \<le> max_revisions demo_resumed"
  using revision_budget_invariant [OF _ _ demo_reachable_resumed] demo_reachable_resumed
  by (simp add: initial_state_def)

text \<open>C2 as stated fails: \<open>max_revisions\<close> is any integer, and an initial state with the
  ceiling -1 has \<open>revision_count = 0\<close> above it before any step.\<close>

theorem negative_ceiling_counterexample:
  "revision_count ((initial_state ''proposal'')\<lparr>max_revisions := - 1\<rparr>) = 0
   \<and> reachable ((initial_state ''proposal'')\<lparr>max_revisions := - 1\<rparr>)
        (Analyze_Document, (initial_state ''proposal'')\<lparr>max_revisions := - 1\<rparr>)
   \<and> max_revisions ((initial_state ''proposal'')\<lparr>max_revisions := - 1\<rparr>)
       < revision_count ((initial_state ''proposal'')\<lparr>max_revisions := - 1\<rparr>)"
  by (simp add: initial_state_def reachable_def)

subsection \<open>The status\<close>

lemma status_written:
  "status (apply_update s (analyze_document r s)) = status s"
  "status (apply_update s (generate_plan r' s)) \<in> {PENDING, DRAFT}"
  "status (apply_update s (present_for_review m s)) = status s"
  "status (apply_update s (feedback_input f)) = status s"
  "status (apply_update s (revise_plan r' s)) \<in> {status s, DRAFT}"
  "status (apply_update s (finalize_plan env s)) \<in> {status s, APPROVED}"
  "status (apply_update s (handle_rejection s)) = REJECTED"
  by (simp_all add: node_defs update_defs input_defs Let_def split: sum.split option.split)

lemma step_status:
  assumes "step c c'" and "status (snd c) \<noteq> REVISION_REQUESTED"
  shows "status (snd c') \<noteq> REVISION_REQUESTED"
  using assms
proof (induction rule: step.induct)
  case (step_generate s' s r n)
  then show ?case using status_written(2) [of s r] by auto
next
  case (step_revise s' s r n)
  then show ?case using status_written(5) [of s r] by auto
next
  case (step_finalize s' s env)
  then show ?case using status_written(6) [of s env] by auto
qed (simp_all add: status_written)

text \<open>
  C10. No node writes REVISION_REQUESTED: from an initial state with the status PENDING,
  every state the graph reaches has one of the statuses PENDING, DRAFT, APPROVED and
  REJECTED.
\<close>

theorem revision_requested_unreachable:
  assumes "status s0 = PENDING" and "reachable s0 (n, s)"
  shows "status s \<in> {PENDING, DRAFT, APPROVED, REJECTED}"
proof -
  have "status (snd c) \<noteq> REVISION_REQUESTED" if "step\<^sup>*\<^sup>* (Analyze_Document, s0) c" for c
    using that assms(1)
    by (induction rule: rtranclp_induct) (auto dest: step_status)
  from this [of "(n, s)"] assms(2) have "status s \<noteq> REVISION_REQUESTED"
    by (simp add: reachable_def)
  then show ?thesis by (cases "status s") simp_all
qed

theorem revision_requested_unreachable_witness:
  "reachable (initial_state ''proposal'') (Present_For_Review, demo_revised)
   \<and> status demo_revised \<in> {PENDING, DRAFT, APPROVED, REJECTED}
   \<and> status demo_revised = DRAFT"
proof -
  have "status (initial_state ''proposal'') = PENDING"
    by (simp add: initial_state_def)
  from revision_requested_unreachable [OF this demo_reachable_revised] demo_reachable_revised
  show ?thesis
    by (simp add: demo_revised_def revise_plan_def update_defs)
qed

subsection \<open>Errors end the run\<close>

text \<open>From any initial state, a node other than the entry point is only about to run on
  a state whose error is unset or empty: a failing node is followed by the end of the run,
  and a run started on a state with an error ends right after \<open>analyze_document\<close>. So
  \<open>finalize_plan\<close>, reached with a plan, leaves a state without an error.\<close>

lemma step_error_checked:
  assumes "step c c'"
    and "fst c \<notin> {Analyze_Document, END} \<longrightarrow> \<not> truthy (error (snd c))"
  shows "fst c' \<notin> {Analyze_Document, END} \<longrightarrow> \<not> truthy (error (snd c'))"
  using assms
proof (induction rule: step.induct)
  case (step_analyze s' s r n)
  then show ?case
    by (auto simp: check_for_errors_def analyze_edges_def split: if_splits)
next
  case (step_generate s' s r n)
  then show ?case
    by (auto simp: check_for_errors_def generate_edges_def split: if_splits)
next
  case (step_review s' s review_message feedback n)
  then show ?case
    by (auto simp: present_for_review_def feedback_input_def update_defs
        split: option.splits)
next
  case (step_review_early s1 s review_message n s' feedback)
  then show ?case
    by (auto simp: present_for_review_def feedback_input_def update_defs
        split: option.splits)
next
  case (step_revise s' s r n)
  then show ?case
    by (auto simp: check_for_errors_def revise_edges_def split: if_splits)
next
  case (step_finalize s' s env)
  then show ?case by simp
next
  case (step_reject s' s)
  then show ?case by simp
next
  case (step_restart s' s feedback n)
  then show ?case by simp
qed

lemma error_checked_before_node:
  assumes "reachable s0 (n, s)" and "n \<notin> {Analyze_Document, END}"
  shows "\<not> truthy (error s)"
proof -
  have "fst c \<notin> {Analyze_Document, END} \<longrightarrow> \<not> truthy (error (snd c))"
    if "step\<^sup>*\<^sup>* (Analyze_Document, s0) c" for c
    using that
  proof (induction rule: rtranclp_induct)
    case base
    then show ?case by simp
  next
    case (step y z)
    then show ?case using step_error_checked [of y z] by blast
  qed
  from this [of "(n, s)"] assms show ?thesis by (simp add: reachable_def)
qed

lemma error_run_ends_after_analysis:
  assumes "truthy (error s)" and "step (Analyze_Document, s) (n, s')"
  shows "n \<in> {END, Analyze_Document} \<and> truthy (error s')"
  using assms(2,1)
  by (cases rule: step.cases)
     (auto simp: analyze_document_def feedback_input_def update_defs check_for_errors_def
        analyze_edges_def truthy_def split: sum.splits if_splits)

lemma finalize_reached_error_unset:
  assumes "reachable s0 (Finalize_Plan, s)" and "presentation_plan s = Some plan"
  shows "\<not> truthy (error (apply_update s (finalize_plan env s)))
         \<and> status (apply_update s (finalize_plan env s)) = APPROVED"
  using error_checked_before_node [OF assms(1)] assms(2)
  by (simp add: finalize_plan_def update_defs Let_def)

section \<open>The summary of a plan\<close>

lemma split_on_no_sep: "c \<notin> set l \<Longrightarrow> split_on c l = [l]"
  by (induction l) auto

lemma split_on_line: "c \<notin> set l \<Longrightarrow> split_on c (l @ c # rest) = l # split_on c rest"
  by (induction l) auto

lemma split_on_join:
  "ls \<noteq> [] \<Longrightarrow> \<forall>l \<in> set ls. c \<notin> set l \<Longrightarrow> split_on c (py_join [c] ls) = ls"
proof (induction "[c]" ls rule: py_join.induct)
  case 1
  then show ?case by simp
next
  case (2 x)
  then show ?case by (simp add: split_on_no_sep)
next
  case (3 x y ys)
  then show ?case by (simp add: split_on_line)
qed

lemma is_digit_digit_char: "d < 10 \<Longrightarrow> is_digit (digit_char d)"
  by (simp add: is_digit_def digit_char_def)

lemma value_digit_char: "d < 10 \<Longrightarrow> (of_char (digit_char d) :: nat) - 48 = d"
  by (simp add: digit_char_def)

lemma str_nat_is_digit: "\<forall>c \<in> set (str_nat n). is_digit c"
proof (induction n rule: str_nat.induct)
  case (1 n)
  show ?case
  proof (cases "n < 10")
    case True
    then show ?thesis by (simp add: str_nat.simps [of n] is_digit_digit_char)
  next
    case False
    with 1 show ?thesis by (simp add: str_nat.simps [of n] is_digit_digit_char)
  qed
qed

lemma str_nat_not_Nil: "str_nat n \<noteq> []"
  by (simp add: str_nat.simps [of n])

lemma parse_digits_snoc:
  "parse_digits acc (xs @ [c]) =
     (case parse_digits acc xs of
        None \<Rightarrow> None
      | Some a \<Rightarrow> if is_digit c then Some (a * 10 + (of_char c - 48)) else None)"
  by (induction xs arbitrary: acc) auto

lemma parse_digits_str_nat: "parse_digits 0 (str_nat n) = Some n"
proof (induction n rule: str_nat.induct)
  case (1 n)
  show ?case
  proof (cases "n < 10")
    case True
    then show ?thesis
      by (simp add: str_nat.simps [of n] is_digit_digit_char value_digit_char)
  next
    case False
    with 1 have "parse_digits 0 (str_nat (n div 10)) = Some (n div 10)" by simp
    with False show ?thesis
      by (simp add: str_nat.simps [of n] parse_digits_snoc is_digit_digit_char
          value_digit_char)
  qed
qed

lemma parse_nat_str_nat: "parse_nat (str_nat n) = Some n"
  by (simp add: parse_nat_def str_nat_not_Nil parse_digits_str_nat)

lemma is_digit_not_special:
  "is_digit c \<Longrightarrow> c \<noteq> CHR ''.'' \<and> c \<noteq> CHR '' '' \<and> c \<noteq> CHR 0x0A \<and> c \<noteq> CHR ''-''"
  by (auto simp: is_digit_def)

lemma str_nat_no_char:
  "CHR ''.'' \<notin> set (str_nat n)" "CHR '' '' \<notin> set (str_nat n)" "CHR 0x0A \<notin> set (str_nat n)"
  using str_nat_is_digit [of n] is_digit_not_special by blast+

lemma hd_str_nat_not_space: "hd (str_nat n) \<noteq> CHR '' ''"
  using str_nat_no_char(2) [of n] str_nat_not_Nil [of n] by (metis hd_in_set)

lemma slide_type_of_value_inverse: "slide_type_of_value (slide_type_value t) = Some t"
  by (cases t) (simp_all add: slide_type_of_value_def)

lemma slide_type_value_props:
  "length (slide_type_value t) \<le> 15" "slide_type_value t \<noteq> []"
  "last (slide_type_value t) \<noteq> CHR '' ''" "CHR 0x0A \<notin> set (slide_type_value t)"
  by (cases t; simp)+

lemma rstrip_ljust: "v \<noteq> [] \<Longrightarrow> last v \<noteq> CHR '' '' \<Longrightarrow> rstrip_spaces (ljust w v) = v"
proof -
  assume v: "v \<noteq> []" "last v \<noteq> CHR '' ''"
  have "dropWhile (\<lambda>c. c = CHR '' '') (replicate k CHR '' '' @ rev v) = rev v" for k
    using v by (induction k) (simp_all add: dropWhile_eq_self_iff hd_rev)
  then show ?thesis by (simp add: rstrip_spaces_def ljust_def)
qed

lemma length_ljust: "length v \<le> w \<Longrightarrow> length (ljust w v) = w"
  by (simp add: ljust_def)

lemma index_field:
  "takeWhile (\<lambda>c. c \<noteq> CHR ''.'') (rjust 2 (str_nat i) @ CHR ''.'' # rest) = rjust 2 (str_nat i)"
  "dropWhile (\<lambda>c. c \<noteq> CHR ''.'') (rjust 2 (str_nat i) @ CHR ''.'' # rest) = CHR ''.'' # rest"
proof -
  have "\<forall>c \<in> set (rjust 2 (str_nat i)). c \<noteq> CHR ''.''"
    using str_nat_no_char(1) [of i] by (auto simp: rjust_def)
  then show
    "takeWhile (\<lambda>c. c \<noteq> CHR ''.'') (rjust 2 (str_nat i) @ CHR ''.'' # rest) = rjust 2 (str_nat i)"
    "dropWhile (\<lambda>c. c \<noteq> CHR ''.'') (rjust 2 (str_nat i) @ CHR ''.'' # rest) = CHR ''.'' # rest"
    by (simp_all add: takeWhile_tail dropWhile_append3 takeWhile_eq_all_conv
        dropWhile_eq_Nil_conv)
qed

lemma index_value: "parse_nat (dropWhile (\<lambda>c. c = CHR '' '') (rjust 2 (str_nat i))) = Some i"
proof -
  have "dropWhile (\<lambda>c. c = CHR '' '') (replicate k CHR '' '' @ str_nat i) = str_nat i" for k
    using hd_str_nat_not_space [of i]
    by (induction k) (simp_all add: dropWhile_eq_self_iff)
  then show ?thesis by (simp add: rjust_def parse_nat_str_nat)
qed

lemma parse_slide_line_inverse:
  "parse_slide_line (slide_line i s) = Some (i, slide_type s, slide_title s)"
proof -
  let ?tag = "ljust 15 (slide_type_value (slide_type s))"
  have len: "length ?tag = 15"
    by (simp add: length_ljust slide_type_value_props)
  have line: "slide_line i s = rjust 2 (str_nat i) @ CHR ''.'' # ('' ['' @ ?tag @ ''] '' @ slide_title s)"
    by (simp add: slide_line_def)
  show ?thesis
    unfolding parse_slide_line_def line index_field Let_def index_value
    using len
    by (simp add: strip_prefix_def rstrip_ljust slide_type_value_props
        slide_type_of_value_inverse)
qed


lemma those_slide_lines:
  "those (map parse_slide_line (slide_lines i sl))
     = Some (map (\<lambda>(k, s). (k, slide_type s, slide_title s)) (List.enumerate i sl))"
  by (induction sl arbitrary: i) (simp_all add: parse_slide_line_inverse)

lemma str_int_no_newline: "CHR 0x0A \<notin> set (str_int d)"
  by (simp add: str_int_def str_nat_no_char)

lemma slide_line_no_newline:
  "CHR 0x0A \<notin> set (slide_title s) \<Longrightarrow> CHR 0x0A \<notin> set (slide_line i s)"
  by (simp add: slide_line_def rjust_def ljust_def str_nat_no_char slide_type_value_props)

lemma slide_lines_no_newline:
  "\<forall>s \<in> set sl. CHR 0x0A \<notin> set (slide_title s) \<Longrightarrow>
   \<forall>l \<in> set (slide_lines i sl). CHR 0x0A \<notin> set l"
  by (induction sl arbitrary: i) (simp_all add: slide_line_no_newline)

lemma summary_lines_no_newline:
  assumes "CHR 0x0A \<notin> set (title p)"
    and "\<forall>s \<in> set (slides p). CHR 0x0A \<notin> set (slide_title s)"
  shows "\<forall>l \<in> set (summary_lines p). CHR 0x0A \<notin> set l"
  using assms slide_lines_no_newline [of "slides p" 1]
  by (simp add: summary_lines_def str_nat_no_char str_int_no_newline)

lemma split_summary:
  assumes "CHR 0x0A \<notin> set (title p)"
    and "\<forall>s \<in> set (slides p). CHR 0x0A \<notin> set (slide_title s)"
  shows "split_on (CHR 0x0A) (get_slide_summary p) = summary_lines p"
  unfolding get_slide_summary_def
  by (rule split_on_join) (simp add: summary_lines_def, rule summary_lines_no_newline [OF assms])

text \<open>
  C9, as amended. For every plan whose title and slide titles hold no line break, reading
  the summary back gives the number of slides of the plan and, for every slide in the
  order of the plan, its index counted from 1, its type and its title.
\<close>

theorem summary_round_trip:
  assumes "CHR 0x0A \<notin> set (title p)"
    and "\<forall>s \<in> set (slides p). CHR 0x0A \<notin> set (slide_title s)"
  shows "parse_summary (get_slide_summary p)
           = Some (get_slide_count p,
                   map (\<lambda>(i, s). (i, slide_type s, slide_title s)) (List.enumerate 1 (slides p)))"
  unfolding parse_summary_def split_summary [OF assms] Let_def
  by (simp add: summary_lines_def strip_prefix_def parse_nat_str_nat those_slide_lines)

theorem summary_round_trip_witness:
  "parse_summary (get_slide_summary demo_plan)
     = Some (3, [(1, TITLE, ''Cloud Migration''), (2, AGENDA, ''Agenda''),
                 (3, CLOSING, ''Thank You'')])"
proof -
  have "CHR 0x0A \<notin> set (title demo_plan)"
    by (simp add: demo_plan_def)
  moreover have "\<forall>s \<in> set (slides demo_plan). CHR 0x0A \<notin> set (slide_title s)"
    by (simp add: demo_plan_def)
  ultimately show ?thesis
    using summary_round_trip [of demo_plan]
    by (simp add: demo_plan_def get_slide_count_def enumerate_eq_zip eval_nat_numeral)
qed

text \<open>C9 as stated fails: titles may hold line breaks, and then a plan of two slides and
  a plan of one slide have the same summary, so that no reader of summaries gives the
  slide count of both.\<close>

theorem summary_ambiguous_counterexample:
  "get_slide_summary two_slide_plan = get_slide_summary one_slide_plan
   \<and> get_slide_count two_slide_plan = 2 \<and> get_slide_count one_slide_plan = 1"
  by (simp add: get_slide_summary_def summary_lines_def slide_line_def get_slide_count_def
      two_slide_plan_def one_slide_plan_def summary_header_tail_def str_int_def text_defs)

end
